theory Spec2Isabelle
  imports Main
begin

section \<open>Python values shared by the modules\<close>

text \<open>
  The plugin mixes textual and numeric identifiers: app and package identifiers are
  kept as \<open>str\<close> in the caches, while the type annotations of several functions
  announce \<open>int\<close>. Values that may be either are modelled by a small universe.
  Two values of different Python types never compare equal here (\<open>"355880" == 355880\<close>
  is \<open>False\<close> in Python).
\<close>

datatype py_value = PyNone | PyInt int | PyStr string

text \<open>Python truthiness of such a value: \<open>None\<close>, \<open>0\<close> and \<open>""\<close> are falsy.\<close>

fun truthy :: "py_value \<Rightarrow> bool" where
  "truthy PyNone = False"
| "truthy (PyInt i) = (i \<noteq> 0)"
| "truthy (PyStr s) = (s \<noteq> [])"

text \<open>\<open>str(n)\<close> for an integer: its decimal digits, with a leading minus sign.\<close>

function str_nat :: "nat \<Rightarrow> string" where
  "str_nat n =
     (if n < 10 then [char_of (48 + n)]
      else str_nat (n div 10) @ [char_of (48 + n mod 10)])"
  by pat_completeness auto
termination
  by (relation "measure (\<lambda>n. n)") auto

definition str_int :: "int \<Rightarrow> string" where
  "str_int i = (if i < 0 then CHR ''-'' # str_nat (nat (- i)) else str_nat (nat i))"

fun py_str :: "py_value \<Rightarrow> string" where
  "py_str PyNone = ''None''"
| "py_str (PyInt i) = str_int i"
| "py_str (PyStr s) = s"


section \<open>steam_network/w3_hack.py\<close>

text \<open>
  \<^verbatim>\<open>
  def does_witcher_3_dlcs_set_resolve_to_GOTY(owned_dlc_app_ids: Set[int]) -> bool:
      W3_EXPANSION_PASS = "355880"
      W3_DLCS_GOTY_COMPONENTS = {"378648", "378649"}
      return W3_EXPANSION_PASS in owned_dlc_app_ids \
          or len(W3_DLCS_GOTY_COMPONENTS - owned_dlc_app_ids) == 0
  \<close>
  The argument is a Python set; \<open>in\<close> and set difference read it and build a new
  set, so the function is modelled as a function of the set alone. The annotation says
  \<open>Set[int]\<close> while the constants are strings, hence elements of type
  \<^typ>\<open>py_value\<close>.
\<close>

definition W3_EXPANSION_PASS :: py_value where
  "W3_EXPANSION_PASS = PyStr ''355880''"

definition W3_DLCS_GOTY_COMPONENTS :: "py_value set" where
  "W3_DLCS_GOTY_COMPONENTS = {PyStr ''378648'', PyStr ''378649''}"

definition does_witcher_3_dlcs_set_resolve_to_GOTY :: "py_value set \<Rightarrow> bool" where
  "does_witcher_3_dlcs_set_resolve_to_GOTY owned_dlc_app_ids =
     (W3_EXPANSION_PASS \<in> owned_dlc_app_ids
      \<or> card (W3_DLCS_GOTY_COMPONENTS - owned_dlc_app_ids) = 0)"


section \<open>protocol_client.py: result codes and their translation\<close>

text \<open>
  \<open>EResult\<close> is declared in \<open>protocol/consts.py\<close>. The constructors below are the
  members that the two protocol clients name; \<open>EResult_other n\<close> stands for any member
  (or raw number \<open>n\<close>) that they do not name. Members are written qualified, as in
  the Python: \<open>EResult.OK\<close>.
\<close>

datatype EResult =
    OK | InvalidPassword | AccountNotFound | InvalidSteamID | InvalidLoginAuthCode
  | AccountLogonDenied | AccountLogonDeniedNoMailSent | AccountLoginDeniedNeedTwoFactor
  | TwoFactorCodeMismatch | TwoFactorActivationCodeMismatch
  | ConnectFailed | IOFailure | RemoteDisconnect
  | Busy | ServiceUnavailable | Pending | IPNotFound | TryAnotherCM | Cancelled
  | Timeout
  | RateLimitExceeded | LimitExceeded | Suspended | AccountLocked
  | AccountLogonDeniedVerifiedEmailRequired
  | Banned
  | AccessDenied | InsufficientPrivilege | LogonSessionReplaced | Blocked | Ignored
  | AccountDisabled | AccountNotFeatured
  | DataCorruption | DiskFull | RemoteCallFailed | RemoteFileConflict | BadResponse
  | EResult_other int

text \<open>
  The exception classes of \<open>galaxy.api.errors\<close> that \<open>translate_error\<close> builds. Each
  instance carries \<open>data = {"result": result}\<close>.
\<close>

datatype galaxy_error_kind =
    InvalidCredentials | NetworkError | BackendNotAvailable | BackendTimeout
  | TemporaryBlocked | Banned | AccessDenied | BackendError | UnknownError

datatype galaxy_error = GalaxyError (kind: galaxy_error_kind) (data_result: EResult)

text \<open>Everything the modelled functions can raise.\<close>

datatype py_error =
    AssertionError
  | AttributeError
  | ValueError
  | InvalidStateError
  | Raised galaxy_error
  | BackendFailure string
  | HttpFailure string
  | XmlSyntaxError
  | ProfileDoesNotExist
  | ProfileIsNotPublic
  | ParseError
  | NotPublicGameDetailsOrUserHasNoGames

text \<open>
  \<open>translate_error\<close> is the same text in \<open>steam_network/protocol_client.py\<close> and in
  \<open>protocol/protocol_client.py\<close>. It returns the exception object; only the leading
  \<open>assert\<close> raises.
\<close>

definition translate_error :: "EResult \<Rightarrow> py_error + galaxy_error" where
  "translate_error result =
     (if \<not> (result \<noteq> EResult.OK) then Inl AssertionError
      else if result \<in> {EResult.InvalidPassword, EResult.AccountNotFound,
                EResult.InvalidSteamID, EResult.InvalidLoginAuthCode,
                EResult.AccountLogonDeniedNoMailSent, EResult.AccountLoginDeniedNeedTwoFactor,
                EResult.TwoFactorCodeMismatch, EResult.TwoFactorActivationCodeMismatch}
        then Inr (GalaxyError InvalidCredentials result)
      else if result \<in> {EResult.ConnectFailed, EResult.IOFailure, EResult.RemoteDisconnect}
        then Inr (GalaxyError NetworkError result)
      else if result \<in> {EResult.Busy, EResult.ServiceUnavailable, EResult.Pending,
                EResult.IPNotFound, EResult.TryAnotherCM, EResult.Cancelled}
        then Inr (GalaxyError BackendNotAvailable result)
      else if result = EResult.Timeout
        then Inr (GalaxyError BackendTimeout result)
      else if result \<in> {EResult.RateLimitExceeded, EResult.LimitExceeded, EResult.Suspended,
                EResult.AccountLocked, EResult.AccountLogonDeniedVerifiedEmailRequired}
        then Inr (GalaxyError TemporaryBlocked result)
      else if result = EResult.Banned
        then Inr (GalaxyError Banned result)
      else if result \<in> {EResult.AccessDenied, EResult.InsufficientPrivilege,
                EResult.LogonSessionReplaced, EResult.Blocked, EResult.Ignored,
                EResult.AccountDisabled, EResult.AccountNotFeatured}
        then Inr (GalaxyError AccessDenied result)
      else if result \<in> {EResult.DataCorruption, EResult.DiskFull, EResult.RemoteCallFailed,
                EResult.RemoteFileConflict, EResult.BadResponse}
        then Inr (GalaxyError BackendError result)
      else Inr (GalaxyError UnknownError result))"

text \<open>
  \<open>raise translate_error(result)\<close>: the assertion inside the call escapes as it is,
  otherwise the returned exception object is raised.
\<close>

definition raise_translate_error :: "EResult \<Rightarrow> py_error" where
  "raise_translate_error result =
     (case translate_error result of Inl e \<Rightarrow> e | Inr g \<Rightarrow> Raised g)"

text \<open>The result codes that \<open>translate_error\<close> lists explicitly, all branches together.\<close>

definition listed_results :: "EResult set" where
  "listed_results =
     {EResult.InvalidPassword, EResult.AccountNotFound, EResult.InvalidSteamID,
      EResult.InvalidLoginAuthCode, EResult.AccountLogonDeniedNoMailSent,
      EResult.AccountLoginDeniedNeedTwoFactor, EResult.TwoFactorCodeMismatch,
      EResult.TwoFactorActivationCodeMismatch,
      EResult.ConnectFailed, EResult.IOFailure, EResult.RemoteDisconnect,
      EResult.Busy, EResult.ServiceUnavailable, EResult.Pending, EResult.IPNotFound,
      EResult.TryAnotherCM, EResult.Cancelled,
      EResult.Timeout,
      EResult.RateLimitExceeded, EResult.LimitExceeded, EResult.Suspended,
      EResult.AccountLocked, EResult.AccountLogonDeniedVerifiedEmailRequired,
      EResult.Banned,
      EResult.AccessDenied, EResult.InsufficientPrivilege, EResult.LogonSessionReplaced,
      EResult.Blocked, EResult.Ignored, EResult.AccountDisabled, EResult.AccountNotFeatured,
      EResult.DataCorruption, EResult.DiskFull, EResult.RemoteCallFailed,
      EResult.RemoteFileConflict, EResult.BadResponse}"


section \<open>steam_network/protocol_client.py: the login reply\<close>

datatype UserActionRequired =
    NoActionRequired
  | EmailTwoFactorInputRequired
  | PhoneTwoFactorInputRequired
  | PhoneTwoFactorConfirmRequired
  | PasswordRequired
  | InvalidAuthData

text \<open>
  The guard types that \<open>to_UserAction\<close> compares with. They are declared in the generated
  module \<open>steammessages_auth_pb2\<close>; the first four are the names the function tests, the
  next four are the ones its last comment lists, and \<open>k_EAuthSessionGuardType_invalid n\<close>
  is the "invalid number" of that comment.
\<close>

datatype CAuthentication_AllowedConfirmation =
    k_EAuthSessionGuardType_None
  | auth_k_EAuthSessionGuardType_EmailCode
  | k_EAuthSessionGuardType_DeviceCode
  | k_EAuthSessionGuardType_DeviceConfirmation
  | k_EAuthSessionGuardType_Unknown
  | k_EAuthSessionGuardType_LegacyMachineAuth
  | k_EAuthSessionGuardType_MachineToken
  | k_EAuthSessionGuardType_EmailConfirmation
  | k_EAuthSessionGuardType_invalid int

definition to_UserAction :: "CAuthentication_AllowedConfirmation \<Rightarrow> UserActionRequired" where
  "to_UserAction auth_enum =
     (if auth_enum = k_EAuthSessionGuardType_None then NoActionRequired
      else if auth_enum = auth_k_EAuthSessionGuardType_EmailCode
        then EmailTwoFactorInputRequired
      else if auth_enum = k_EAuthSessionGuardType_DeviceCode
        then PhoneTwoFactorInputRequired
      else if auth_enum = k_EAuthSessionGuardType_DeviceConfirmation
        then PhoneTwoFactorConfirmRequired
      else InvalidAuthData)"

text \<open>
  The \<open>for allowed in message.allowed_confirmations\<close> loop of \<open>_login_handler\<close>, with
  \<open>auth_method\<close> as the accumulator. The first branch is the one that ends in
  \<open>break\<close>: it returns without looking at the rest of the list.
\<close>

fun login_loop ::
  "UserActionRequired \<Rightarrow> CAuthentication_AllowedConfirmation list \<Rightarrow> UserActionRequired" where
  "login_loop auth_method [] = auth_method"
| "login_loop auth_method (allowed # rest) =
     (let action = to_UserAction allowed in
      if action = PhoneTwoFactorInputRequired then action
      else if action = EmailTwoFactorInputRequired then login_loop action rest
      else if action = PhoneTwoFactorConfirmRequired
              \<and> auth_method \<noteq> EmailTwoFactorInputRequired then login_loop action rest
      else if action = NoActionRequired \<and> auth_method = InvalidAuthData
        then login_loop action rest
      else login_loop auth_method rest)"

text \<open>
  The fields of \<open>CAuthentication_BeginAuthSessionViaCredentials_Response\<close> that the handler
  reads. \<open>interval\<close> is a float that is only handed on, so its type is left open.
\<close>

record 'f BeginAuthSessionViaCredentials_Response =
  client_id :: int
  steamid :: int
  request_id :: string
  interval :: 'f
  allowed_confirmations :: "CAuthentication_AllowedConfirmation list"
  extended_error_message :: string

text \<open>
  \<open>SteamPollingData(client_id, steamid, request_id, interval, auth_method,
  extended_error_message)\<close>: the six constructor arguments, in order.
\<close>

datatype 'f SteamPollingData =
  SteamPollingData int int string 'f UserActionRequired string

fun confirmation_method :: "'f SteamPollingData \<Rightarrow> UserActionRequired" where
  "confirmation_method (SteamPollingData c s r i a e) = a"

text \<open>
  An \<open>asyncio.Future\<close>: pending, or done with a result. \<open>set_result\<close> on a future that
  is already done raises \<open>InvalidStateError\<close>.
\<close>

datatype 'a future = Future_pending | Future_done 'a

fun set_result :: "'a future \<Rightarrow> 'a \<Rightarrow> py_error + 'a future" where
  "set_result Future_pending v = Inr (Future_done v)"
| "set_result (Future_done w) v = Inl InvalidStateError"

text \<open>What \<open>_login_handler\<close> touches of the client: the cached steam id and the login future.\<close>

record 'f ProtocolClient =
  user_info_cache_steam_id :: "int option"
  login_future :: "(EResult \<times> 'f SteamPollingData option) future option"

text \<open>
  \<open>_login_handler\<close>. The result pairs what the coroutine raises (\<open>None\<close> when it returns)
  with the client as the call leaves it.
\<close>

definition login_handler ::
  "'f ProtocolClient \<Rightarrow> EResult \<Rightarrow> 'f BeginAuthSessionViaCredentials_Response
     \<Rightarrow> py_error option \<times> 'f ProtocolClient" where
  "login_handler self result message =
     (let (self1, data) =
        (if result = EResult.OK then
           let self1 =
                 (if user_info_cache_steam_id self \<noteq> Some (steamid message)
                  then self\<lparr>user_info_cache_steam_id := Some (steamid message)\<rparr>
                  else self);
               auth_method = login_loop InvalidAuthData (allowed_confirmations message)
           in (self1,
               Some (SteamPollingData (client_id message) (steamid message)
                       (request_id message) (interval message) auth_method
                       (extended_error_message message)))
         else (self, None))
      in case login_future self1 of
           Some fut \<Rightarrow>
             (case set_result fut (result, data) of
                Inl e \<Rightarrow> (Some e, self1)
              | Inr fut' \<Rightarrow> (None, self1\<lparr>login_future := Some fut'\<rparr>))
         | None \<Rightarrow> (Some (raise_translate_error result), self1))"


section \<open>protocol/protocol_client.py: the log-on reply of the older client\<close>

text \<open>
  \<^verbatim>\<open>
  async def _log_on_handler(self, result: EResult):
      assert self._login_future is not None
      self._login_future.set_result(result)
  \<close>
\<close>

record LegacyProtocolClient =
  legacy_login_future :: "EResult future option"

definition log_on_handler ::
  "LegacyProtocolClient \<Rightarrow> EResult \<Rightarrow> py_error option \<times> LegacyProtocolClient" where
  "log_on_handler self result =
     (case legacy_login_future self of
        None \<Rightarrow> (Some AssertionError, self)
      | Some fut \<Rightarrow>
          (case set_result fut result of
             Inl e \<Rightarrow> (Some e, self)
           | Inr fut' \<Rightarrow> (None, self\<lparr>legacy_login_future := Some fut'\<rparr>)))"


section \<open>protocol_client.py: relationships and licenses\<close>

text \<open>
  \<open>_relationship_handler\<close> and \<open>_license_import_handler\<close> are the same text in both
  protocol clients. The requests they send through the protobuf client are recorded in
  order; \<open>1106\<close> is \<open>_STATUS_FLAG\<close>.
\<close>

text \<open>
  \<open>EFriendRelationship\<close> is declared in \<open>protocol/consts.py\<close>; the handler names
  \<open>Friend\<close> and \<open>None_\<close> (written \<open>None_relationship\<close> here, a name cannot end in an
  underscore), and \<open>EFriendRelationship_other n\<close> stands for every other member.
\<close>

datatype EFriendRelationship = None_relationship | Friend | EFriendRelationship_other int

record SteamLicense =
  package_id :: int

datatype protobuf_call =
    Set_persona_state_Invisible
  | Get_friends_statuses
  | Get_user_infos "int list" nat
  | Get_packages_info "SteamLicense list"

subsection \<open>The friends cache\<close>

text \<open>
  Modelled from the spec: \<open>FriendsCache\<close> lives in \<open>friends_cache.py\<close>, which is not
  among the sources. The spec describes it as supporting a full reset from the initial
  relationship snapshot and incremental add and remove; its contents are the user ids it
  holds.
\<close>

type_synonym FriendsCache = "int set"

text \<open>Modelled from the spec: \<open>FriendsCache.add\<close>, the incremental add of one user.\<close>

definition FriendsCache_add :: "int \<Rightarrow> FriendsCache \<Rightarrow> FriendsCache" where
  "FriendsCache_add user_id cache = insert user_id cache"

text \<open>Modelled from the spec: \<open>FriendsCache.remove\<close>, the incremental removal of one user.\<close>

definition FriendsCache_remove :: "int \<Rightarrow> FriendsCache \<Rightarrow> FriendsCache" where
  "FriendsCache_remove user_id cache = cache - {user_id}"

text \<open>Modelled from the spec: \<open>FriendsCache.reset\<close>, the full reset to a given list.\<close>

definition FriendsCache_reset :: "int list \<Rightarrow> FriendsCache \<Rightarrow> FriendsCache" where
  "FriendsCache_reset user_ids cache = set user_ids"

subsection \<open>\<open>_relationship_handler\<close>\<close>

text \<open>
  The loop over \<open>friends.items()\<close>. \<open>friends\<close> is a dict, given here by its items in
  iteration order. The loop stops at the failing \<open>assert incremental\<close>.
\<close>

fun relationship_loop ::
  "bool \<Rightarrow> (int \<times> EFriendRelationship) list \<Rightarrow> FriendsCache \<Rightarrow> int list \<Rightarrow> int list
     \<Rightarrow> py_error option \<times> FriendsCache \<times> int list \<times> int list" where
  "relationship_loop incremental [] cache initial_friends new_friends =
     (None, cache, initial_friends, new_friends)"
| "relationship_loop incremental ((user_id, relationship) # rest) cache initial_friends
       new_friends =
     (if relationship = Friend then
        (if incremental
         then relationship_loop incremental rest (FriendsCache_add user_id cache)
                initial_friends (new_friends @ [user_id])
         else relationship_loop incremental rest cache (initial_friends @ [user_id])
                new_friends)
      else if relationship = None_relationship then
        (if \<not> incremental then (Some AssertionError, cache, initial_friends, new_friends)
         else relationship_loop incremental rest (FriendsCache_remove user_id cache)
                initial_friends new_friends)
      else relationship_loop incremental rest cache initial_friends new_friends)"

definition relationship_handler ::
  "bool \<Rightarrow> (int \<times> EFriendRelationship) list \<Rightarrow> FriendsCache
     \<Rightarrow> py_error option \<times> FriendsCache \<times> protobuf_call list" where
  "relationship_handler incremental friends cache =
     (case relationship_loop incremental friends cache [] [] of
        (Some e, cache1, initial_friends, new_friends) \<Rightarrow> (Some e, cache1, [])
      | (None, cache1, initial_friends, new_friends) \<Rightarrow>
          (let (cache2, calls1) =
                 (if \<not> incremental
                  then (FriendsCache_reset initial_friends cache1,
                        [Set_persona_state_Invisible, Get_friends_statuses,
                         Get_user_infos initial_friends 1106])
                  else (cache1, []));
               calls2 =
                 (if new_friends \<noteq> []
                  then [Get_friends_statuses, Get_user_infos new_friends 1106]
                  else [])
           in (None, cache2, calls1 @ calls2)))"

text \<open>The users that an update declares with a given relationship.\<close>

definition declared :: "EFriendRelationship \<Rightarrow> (int \<times> EFriendRelationship) list \<Rightarrow> int set" where
  "declared relationship friends =
     set (map fst (filter (\<lambda>item. snd item = relationship) friends))"

subsection \<open>The games cache\<close>

text \<open>
  Modelled from the spec: \<open>GamesCache\<close> lives in \<open>games_cache.py\<close>, which is not among
  the sources. The spec speaks of app/package associations, of the previously seen
  package-identifier set, of packages marked as importing, and calls a package resolved
  once it has at least one associated app. The cache is therefore a list of the packages
  it knows, each with the apps associated to it so far.
\<close>

record GamesCache =
  storing_map :: "(string \<times> string list) list"

text \<open>Modelled from the spec: the previously seen package-identifier set.\<close>

definition get_package_ids :: "GamesCache \<Rightarrow> string set" where
  "get_package_ids cache = set (map fst (storing_map cache))"

text \<open>Modelled from the spec: the packages that have at least one associated app.\<close>

definition get_resolved_packages :: "GamesCache \<Rightarrow> string set" where
  "get_resolved_packages cache =
     set (map fst (filter (\<lambda>entry. snd entry \<noteq> []) (storing_map cache)))"

text \<open>Modelled from the spec: clear all app/package associations.\<close>

definition reset_storing_map :: "GamesCache \<Rightarrow> GamesCache" where
  "reset_storing_map cache = cache\<lparr>storing_map := []\<rparr>"

text \<open>
  Modelled from the spec: mark every package of the given licenses as importing. A
  package the cache does not know yet is entered with no app; one it knows is left as
  it is.
\<close>

fun start_packages_import :: "SteamLicense list \<Rightarrow> GamesCache \<Rightarrow> GamesCache" where
  "start_packages_import [] cache = cache"
| "start_packages_import (steam_license # rest) cache =
     start_packages_import rest
       (if str_int (package_id steam_license) \<in> get_package_ids cache then cache
        else cache\<lparr>storing_map :=
               storing_map cache @ [(str_int (package_id steam_license), [])]\<rparr>)"

datatype games_cache_call =
    Reset_storing_map
  | Start_packages_import "SteamLicense list"

subsection \<open>\<open>_license_import_handler\<close>\<close>

text \<open>
  The result is the cache as the handler leaves it, the mutating calls it made on the
  cache and the requests it sent, each in order. The early \<open>return\<close> of the reset
  branch is the \<open>then\<close> branch.
\<close>

definition license_import_handler ::
  "GamesCache \<Rightarrow> SteamLicense list
     \<Rightarrow> GamesCache \<times> games_cache_call list \<times> protobuf_call list" where
  "license_import_handler games_cache steam_licenses =
     (let resolved_packages = get_resolved_packages games_cache;
          package_ids = set (map (\<lambda>steam_license. str_int (package_id steam_license))
                               steam_licenses);
          not_resolved_licenses =
            filter (\<lambda>steam_license.
                      str_int (package_id steam_license) \<notin> resolved_packages)
              steam_licenses
      in if card package_ids < 12000 \<and> package_ids \<noteq> get_package_ids games_cache
         then (start_packages_import steam_licenses (reset_storing_map games_cache),
               [Reset_storing_map, Start_packages_import steam_licenses],
               [Get_packages_info steam_licenses])
         else (start_packages_import not_resolved_licenses games_cache,
               [Start_packages_import not_resolved_licenses],
               [Get_packages_info not_resolved_licenses]))"

text \<open>The set of distinct package identifiers of a batch, as the handler computes it.\<close>

definition batch_package_ids :: "SteamLicense list \<Rightarrow> string set" where
  "batch_package_ids steam_licenses =
     set (map (\<lambda>steam_license. str_int (package_id steam_license)) steam_licenses)"


section \<open>plugin.py: unlocked achievements\<close>

text \<open>
  \<open>GameTime\<close> and \<open>Achievement\<close> are the types of \<open>galaxy.api.types\<close>;
  \<open>Achievement(unlock_time, None, name)\<close> has three positional fields. The context
  prepared by \<open>prepare_achievements_context\<close> is the dict of \<open>_get_game_times_dict\<close>,
  from game id to \<open>GameTime\<close>.
\<close>

record GameTime =
  game_id :: string
  time_played :: "int option"
  last_played_time :: "int option"

datatype Achievement = Achievement int "string option" string

text \<open>\<open>achievements_cache.Fingerprint(last_played_time, time_played)\<close>.\<close>

datatype Fingerprint = Fingerprint "int option" "int option"

subsection \<open>The achievements cache\<close>

text \<open>
  Modelled from the spec: the class \<open>Cache\<close> lives in \<open>cache.py\<close>, which is not among
  the sources. The spec keeps, per game, the stored fingerprint and the unlock list
  written with it.
\<close>

type_synonym Cache = "string \<rightharpoonup> (Fingerprint \<times> Achievement list)"

text \<open>
  Modelled from the spec: \<open>get(game_id, fingerprint)\<close> returns the cached unlock list
  only if the stored fingerprint for that game exactly equals the supplied fingerprint;
  otherwise it is a miss (\<open>None\<close>, which is what \<open>get_unlocked_achievements\<close> tests).
\<close>

definition Cache_get :: "Cache \<Rightarrow> string \<Rightarrow> Fingerprint \<Rightarrow> Achievement list option" where
  "Cache_get cache key fingerprint =
     (case cache key of
        None \<Rightarrow> None
      | Some (stored, achievements) \<Rightarrow>
          if stored = fingerprint then Some achievements else None)"

text \<open>
  Modelled from the spec: \<open>update(game_id, achievements, fingerprint)\<close> overwrites
  unconditionally.
\<close>

definition Cache_update :: "Cache \<Rightarrow> string \<Rightarrow> Achievement list \<Rightarrow> Fingerprint \<Rightarrow> Cache" where
  "Cache_update cache key achievements fingerprint =
     cache(key \<mapsto> (fingerprint, achievements))"

text \<open>A history of writes, oldest first, applied to a cache.\<close>

fun Cache_updates :: "Cache \<Rightarrow> (string \<times> Achievement list \<times> Fingerprint) list \<Rightarrow> Cache" where
  "Cache_updates cache [] = cache"
| "Cache_updates cache ((key, achievements, fingerprint) # writes) =
     Cache_updates (Cache_update cache key achievements fingerprint) writes"

subsection \<open>\<open>get_unlocked_achievements\<close>\<close>

record SteamPlugin =
  steam_id :: py_value
  achievements_cache :: Cache
  achievements_cache_updated :: bool

text \<open>
  What a call does besides returning: it may consult the cache, fetch from the backend
  (\<open>self._client.get_achievements\<close>, the network path) and write the cache.
\<close>

datatype plugin_event =
    Consulted_cache string Fingerprint
  | Fetched_from_backend py_value string
  | Updated_cache string Fingerprint

text \<open>\<open>get_game_time\<close>: \<open>context.get(game_id)\<close>, logged when it is \<open>None\<close>.\<close>

definition get_game_time :: "string \<Rightarrow> (string \<rightharpoonup> GameTime) \<Rightarrow> GameTime option" where
  "get_game_time key context = context key"

text \<open>
  \<open>_get_achievements\<close>: the backend is a parameter; it answers with pairs of unlock time
  and name, or fails.
\<close>

definition get_achievements ::
  "(py_value \<Rightarrow> string \<Rightarrow> py_error + (int \<times> string) list) \<Rightarrow> SteamPlugin \<Rightarrow> string
     \<Rightarrow> py_error + Achievement list" where
  "get_achievements client_get_achievements self key =
     (case client_get_achievements (steam_id self) key of
        Inl e \<Rightarrow> Inl e
      | Inr achievements \<Rightarrow>
          Inr (map (\<lambda>(unlock_time, name). Achievement unlock_time None name) achievements))"

text \<open>
  \<open>get_unlocked_achievements\<close>. Reading \<open>time_played\<close> of a game that the context does
  not hold is an \<open>AttributeError\<close> on \<open>None\<close>.
\<close>

definition get_unlocked_achievements ::
  "(py_value \<Rightarrow> string \<Rightarrow> py_error + (int \<times> string) list) \<Rightarrow> SteamPlugin \<Rightarrow> string
     \<Rightarrow> (string \<rightharpoonup> GameTime)
     \<Rightarrow> (py_error + Achievement list) \<times> SteamPlugin \<times> plugin_event list" where
  "get_unlocked_achievements client_get_achievements self key context =
     (case get_game_time key context of
        None \<Rightarrow> (Inl AttributeError, self, [])
      | Some game_time \<Rightarrow>
          if time_played game_time = Some 0 then (Inr [], self, [])
          else
            (let fingerprint =
                   Fingerprint (last_played_time game_time) (time_played game_time)
             in case Cache_get (achievements_cache self) key fingerprint of
                  Some achievements \<Rightarrow>
                    (Inr achievements, self, [Consulted_cache key fingerprint])
                | None \<Rightarrow>
                    (case get_achievements client_get_achievements self key of
                       Inl e \<Rightarrow>
                         (Inl e, self,
                          [Consulted_cache key fingerprint,
                           Fetched_from_backend (steam_id self) key])
                     | Inr achievements \<Rightarrow>
                         (Inr achievements,
                          self\<lparr>achievements_cache :=
                                 Cache_update (achievements_cache self) key achievements
                                   fingerprint,
                               achievements_cache_updated := True\<rparr>,
                          [Consulted_cache key fingerprint,
                           Fetched_from_backend (steam_id self) key,
                           Updated_cache key fingerprint]))))"


section \<open>user_profile.py: public profile checks\<close>

text \<open>
  An \<open>xml.etree.ElementTree.Element\<close>: tag, text (\<open>elem_text\<close>) and child elements.
  An element is falsy when it has no children.
\<close>

datatype Element = Element (tag: string) (elem_text: "string option") (children: "Element list")

text \<open>\<open>root.find('./error')\<close>: the first child of the root with that tag.\<close>

definition find_child :: "string \<Rightarrow> Element \<Rightarrow> Element option" where
  "find_child name root = List.find (\<lambda>child. tag child = name) (children root)"

text \<open>
  \<open>root.find('./games/game')\<close>: the first \<open>game\<close> child of a \<open>games\<close> child of the
  root, in document order.
\<close>

definition find_games_game :: "Element \<Rightarrow> Element option" where
  "find_games_game root =
     (case concat (map (\<lambda>games. filter (\<lambda>child. tag child = ''game'') (children games))
                     (filter (\<lambda>child. tag child = ''games'') (children root))) of
        [] \<Rightarrow> None
      | game_elm # others \<Rightarrow> Some game_elm)"

text \<open>\<open>getattr(error_elm, 'text', None)\<close>.\<close>

definition error_text :: "Element \<Rightarrow> string option" where
  "error_text root =
     (case find_child ''error'' root of None \<Rightarrow> None | Some error_elm \<Rightarrow> elem_text error_elm)"

definition BASE_URL :: string where
  "BASE_URL = ''https://steamcommunity.com''"

text \<open>
  \<open>_verify_is_public\<close>. The HTTP client (\<open>get\<close> followed by \<open>get_text\<close>) and
  \<open>ET.fromstring\<close> are parameters that answer or fail; their failures pass through. The
  second component lists the URLs requested.
\<close>

definition verify_is_public ::
  "(string \<Rightarrow> py_error + string) \<Rightarrow> (string \<Rightarrow> py_error + Element) \<Rightarrow> string
     \<Rightarrow> (py_error + bool) \<times> string list" where
  "verify_is_public http_get fromstring url =
     (case http_get url of
        Inl e \<Rightarrow> (Inl e, [url])
      | Inr response_text \<Rightarrow>
          (case fromstring response_text of
             Inl e \<Rightarrow> (Inl e, [url])
           | Inr root \<Rightarrow>
               (let error_txt = error_text root in
                if error_txt \<noteq> None \<and> error_txt \<noteq> Some [] then
                  (if error_txt = Some ''The specified profile could not be found.''
                   then (Inl ProfileDoesNotExist, [url])
                   else if error_txt = Some ''This profile is private.''
                   then (Inl ProfileIsNotPublic, [url])
                   else (Inl ParseError, [url]))
                else
                  (case find_games_game root of
                     None \<Rightarrow> (Inl NotPublicGameDetailsOrUserHasNoGames, [url])
                   | Some game_elm \<Rightarrow>
                       if children game_elm = []
                       then (Inl NotPublicGameDetailsOrUserHasNoGames, [url])
                       else (Inr True, [url])))))"

definition check_is_public_by_custom_url ::
  "(string \<Rightarrow> py_error + string) \<Rightarrow> (string \<Rightarrow> py_error + Element) \<Rightarrow> string
     \<Rightarrow> (py_error + bool) \<times> string list" where
  "check_is_public_by_custom_url http_get fromstring username =
     verify_is_public http_get fromstring
       (BASE_URL @ ''/id/'' @ username @ ''/games/?xml=1'')"

definition check_is_public_by_steam_id ::
  "(string \<Rightarrow> py_error + string) \<Rightarrow> (string \<Rightarrow> py_error + Element) \<Rightarrow> py_value
     \<Rightarrow> (py_error + bool) \<times> string list" where
  "check_is_public_by_steam_id http_get fromstring user_steam_id =
     (if \<not> truthy user_steam_id then (Inl ValueError, [])
      else verify_is_public http_get fromstring
             (BASE_URL @ ''/profiles/'' @ py_str user_steam_id @ ''/games/?xml=1''))"

text \<open>The typed exceptions that \<open>user_profile.py\<close> declares and raises itself.\<close>

definition profile_errors :: "py_error set" where
  "profile_errors =
     {ProfileDoesNotExist, ProfileIsNotPublic, ParseError,
      NotPublicGameDetailsOrUserHasNoGames}"


section \<open>The guard priority as the specification words it\<close>

text \<open>
  The specification orders the guard methods: DeviceCodeRequired before EmailCodeRequired
  before DeviceConfirmationRequired before NoActionRequired. This function picks the
  first of them that a list offers, and \<open>InvalidAuthData\<close> (the handler's initial value)
  when the list offers none of the four. It is written from that sentence, to be compared
  with \<open>login_loop\<close>.
\<close>

definition highest_priority_offered ::
  "CAuthentication_AllowedConfirmation list \<Rightarrow> UserActionRequired" where
  "highest_priority_offered offered =
     (if k_EAuthSessionGuardType_DeviceCode \<in> set offered then PhoneTwoFactorInputRequired
      else if auth_k_EAuthSessionGuardType_EmailCode \<in> set offered
        then EmailTwoFactorInputRequired
      else if k_EAuthSessionGuardType_DeviceConfirmation \<in> set offered
        then PhoneTwoFactorConfirmRequired
      else if k_EAuthSessionGuardType_None \<in> set offered then NoActionRequired
      else InvalidAuthData)"


section \<open>Theorems\<close>

subsection \<open>The Witcher 3 bundle rule\<close>

text \<open>
  Claim C9. \<open>does_witcher_3_dlcs_set_resolve_to_GOTY\<close> answers \<open>True\<close> exactly when
  the expansion pass "355880" is in the set, or both components "378648" and "378649"
  are. The model is a total function of the set and returns only a truth value: there is
  no raising branch and no updated set to return.
\<close>

theorem w3_goty_iff:
  "does_witcher_3_dlcs_set_resolve_to_GOTY s =
     (PyStr ''355880'' \<in> s \<or> (PyStr ''378648'' \<in> s \<and> PyStr ''378649'' \<in> s))"
proof -
  have fin: "finite (W3_DLCS_GOTY_COMPONENTS - s)"
    by (simp add: W3_DLCS_GOTY_COMPONENTS_def)
  have "card (W3_DLCS_GOTY_COMPONENTS - s) = 0 \<longleftrightarrow> W3_DLCS_GOTY_COMPONENTS - s = {}"
    using fin by simp
  also have "\<dots> \<longleftrightarrow> (PyStr ''378648'' \<in> s \<and> PyStr ''378649'' \<in> s)"
    by (auto simp: W3_DLCS_GOTY_COMPONENTS_def)
  finally show ?thesis
    by (simp add: does_witcher_3_dlcs_set_resolve_to_GOTY_def W3_EXPANSION_PASS_def)
qed

subsection \<open>The guard priority of the login reply\<close>

text \<open>
  The loop, started from any accumulator it can hold, returns the best of the accumulator
  and the offers. The accumulator is never \<open>PhoneTwoFactorInputRequired\<close> (that branch
  leaves the loop) nor \<open>PasswordRequired\<close>.
\<close>

lemma login_loop_general:
  "auth_method \<in> {InvalidAuthData, NoActionRequired, PhoneTwoFactorConfirmRequired,
                   EmailTwoFactorInputRequired} \<Longrightarrow>
   login_loop auth_method offered =
     (if k_EAuthSessionGuardType_DeviceCode \<in> set offered then PhoneTwoFactorInputRequired
      else if auth_k_EAuthSessionGuardType_EmailCode \<in> set offered
              \<or> auth_method = EmailTwoFactorInputRequired
        then EmailTwoFactorInputRequired
      else if k_EAuthSessionGuardType_DeviceConfirmation \<in> set offered
              \<or> auth_method = PhoneTwoFactorConfirmRequired
        then PhoneTwoFactorConfirmRequired
      else if k_EAuthSessionGuardType_None \<in> set offered \<or> auth_method = NoActionRequired
        then NoActionRequired
      else InvalidAuthData)"
proof (induction offered arbitrary: auth_method)
  case Nil
  then show ?case by auto
next
  case (Cons allowed rest)
  show ?case
  proof (cases allowed)
    case k_EAuthSessionGuardType_None
    then show ?thesis
      using Cons.prems Cons.IH[of auth_method] Cons.IH[of NoActionRequired]
      by (auto simp: to_UserAction_def)
  next
    case auth_k_EAuthSessionGuardType_EmailCode
    then show ?thesis
      using Cons.IH[of EmailTwoFactorInputRequired]
      by (simp add: to_UserAction_def)
  next
    case k_EAuthSessionGuardType_DeviceCode
    then show ?thesis by (simp add: to_UserAction_def)
  next
    case k_EAuthSessionGuardType_DeviceConfirmation
    then show ?thesis
      using Cons.prems Cons.IH[of auth_method] Cons.IH[of PhoneTwoFactorConfirmRequired]
      by (auto simp: to_UserAction_def)
  qed (use Cons.prems Cons.IH[of auth_method] in \<open>auto simp: to_UserAction_def\<close>)
qed

lemma login_loop_highest:
  "login_loop InvalidAuthData offered = highest_priority_offered offered"
  by (simp add: login_loop_general highest_priority_offered_def)

text \<open>
  Claim C1. A login reply with result \<open>OK\<close> that finds the login future pending resolves
  it with polling data whose auth challenge is the highest-priority guard method among
  the allowed confirmations, in the order DeviceCode, EmailCode, DeviceConfirmation,
  None; whenever DeviceCode is offered, with EmailCode before or after it, the challenge
  is \<open>PhoneTwoFactorInputRequired\<close>.
\<close>

theorem login_reply_resolves_highest_priority:
  assumes "login_future self = Some Future_pending"
  shows "\<exists>self' data.
           login_handler self EResult.OK message = (None, self')
         \<and> login_future self' = Some (Future_done (EResult.OK, Some data))
         \<and> confirmation_method data = highest_priority_offered (allowed_confirmations message)
         \<and> (k_EAuthSessionGuardType_DeviceCode \<in> set (allowed_confirmations message)
              \<longrightarrow> confirmation_method data = PhoneTwoFactorInputRequired)"
  using assms
  by (auto simp: login_handler_def Let_def login_loop_highest highest_priority_offered_def)

theorem login_reply_resolves_highest_priority_witness:
  "login_handler
     \<lparr>user_info_cache_steam_id = None, login_future = Some Future_pending\<rparr> EResult.OK
     \<lparr>client_id = 11, steamid = 42, request_id = ''r'', interval = (5::nat),
      allowed_confirmations =
        [auth_k_EAuthSessionGuardType_EmailCode, k_EAuthSessionGuardType_DeviceCode],
      extended_error_message = ''''\<rparr>
   = (None,
      \<lparr>user_info_cache_steam_id = Some 42,
       login_future = Some (Future_done (EResult.OK,
         Some (SteamPollingData 11 42 ''r'' 5 PhoneTwoFactorInputRequired '''')))\<rparr>)
   \<and> highest_priority_offered
        [k_EAuthSessionGuardType_DeviceCode, auth_k_EAuthSessionGuardType_EmailCode]
      = PhoneTwoFactorInputRequired"
  using login_reply_resolves_highest_priority
    [of "\<lparr>user_info_cache_steam_id = None, login_future = Some Future_pending\<rparr>"
        "\<lparr>client_id = 11, steamid = 42, request_id = ''r'', interval = (5::nat),
          allowed_confirmations =
            [auth_k_EAuthSessionGuardType_EmailCode, k_EAuthSessionGuardType_DeviceCode],
          extended_error_message = ''''\<rparr>"]
  by (simp add: login_handler_def to_UserAction_def highest_priority_offered_def)

subsection \<open>The error translator\<close>

text \<open>
  Claim C2. For every result code other than \<open>OK\<close>, \<open>translate_error\<close> returns an
  exception of exactly one kind of the taxonomy, carrying the code, and raises nothing;
  the kind is \<open>UnknownError\<close> exactly for the codes outside the listed sets. With \<open>OK\<close>
  the leading assertion fails.
\<close>

theorem translate_error_total:
  "(result \<noteq> EResult.OK \<longrightarrow>
      (\<exists>!k. translate_error result = Inr (GalaxyError k result))
    \<and> ((translate_error result = Inr (GalaxyError UnknownError result))
         = (result \<notin> listed_results)))
   \<and> translate_error EResult.OK = Inl AssertionError"
  by (simp add: translate_error_def listed_results_def)

theorem translate_error_total_witness:
  "EResult.TryAnotherCM \<noteq> EResult.OK
   \<and> translate_error EResult.TryAnotherCM
       = Inr (GalaxyError BackendNotAvailable EResult.TryAnotherCM)
   \<and> EResult_other 2 \<notin> listed_results
   \<and> translate_error (EResult_other 2) = Inr (GalaxyError UnknownError (EResult_other 2))"
  using translate_error_total [of "EResult_other 2"]
    translate_error_total [of "EResult.TryAnotherCM"]
  by (simp add: translate_error_def listed_results_def)

subsection \<open>Achievements\<close>

text \<open>
  Claim C6. For a game whose \<open>GameTime\<close> in the prepared context records zero minutes
  played, \<open>get_unlocked_achievements\<close> returns the empty list, leaves the plugin as it
  was, and neither consults the achievements cache nor fetches from the backend.
\<close>

theorem zero_playtime_short_circuit:
  "context key = Some game_time \<Longrightarrow> time_played game_time = Some 0 \<Longrightarrow>
   get_unlocked_achievements client_get_achievements self key context = (Inr [], self, [])"
  by (simp add: get_unlocked_achievements_def get_game_time_def)

theorem zero_playtime_short_circuit_witness:
  "get_unlocked_achievements (\<lambda>user key. Inl (BackendFailure ''offline''))
     \<lparr>steam_id = PyStr ''76561197960265729'', achievements_cache = Map.empty,
      achievements_cache_updated = False\<rparr>
     ''440''
     [''440'' \<mapsto> \<lparr>game_id = ''440'', time_played = Some 0, last_played_time = None\<rparr>]
   = (Inr [],
      \<lparr>steam_id = PyStr ''76561197960265729'', achievements_cache = Map.empty,
       achievements_cache_updated = False\<rparr>,
      [])"
  using zero_playtime_short_circuit
    [of "[''440'' \<mapsto> \<lparr>game_id = ''440'', time_played = Some 0, last_played_time = None\<rparr>]"
        "''440''" "\<lparr>game_id = ''440'', time_played = Some 0, last_played_time = None\<rparr>"
        "\<lambda>user key. Inl (BackendFailure ''offline'')"
        "\<lparr>steam_id = PyStr ''76561197960265729'', achievements_cache = Map.empty,
          achievements_cache_updated = False\<rparr>"]
  by simp

lemma Cache_get_other_writes:
  "\<forall>w \<in> set writes. fst w \<noteq> key \<Longrightarrow>
   Cache_get (Cache_updates cache writes) key fingerprint = Cache_get cache key fingerprint"
proof (induction writes arbitrary: cache)
  case Nil
  then show ?case by simp
next
  case (Cons w writes)
  obtain k a f where w: "w = (k, a, f)" by (cases w)
  with Cons.prems have "k \<noteq> key" by simp
  then have "Cache_get (Cache_update cache k a f) key fingerprint
             = Cache_get cache key fingerprint"
    by (simp add: Cache_get_def Cache_update_def)
  with Cons w show ?case by simp
qed

lemma Cache_updates_append:
  "Cache_updates cache (ws @ vs) = Cache_updates (Cache_updates cache ws) vs"
  by (induction ws arbitrary: cache) auto

text \<open>
  Claim C7. In any history of writes in which \<open>update(key, A, F)\<close> is the last write for
  \<open>key\<close> (later writes go to other games), \<open>get(key, F)\<close> returns exactly \<open>A\<close> and
  \<open>get(key, F')\<close> is a miss for every other fingerprint; \<open>update\<close> stores its entry
  whatever was stored before.
\<close>

theorem cache_get_after_update:
  assumes "\<forall>w \<in> set later. fst w \<noteq> key"
  shows "Cache_get (Cache_updates cache (earlier @ [(key, A, F)] @ later)) key F = Some A
       \<and> (\<forall>F'. F' \<noteq> F \<longrightarrow>
            Cache_get (Cache_updates cache (earlier @ [(key, A, F)] @ later)) key F' = None)
       \<and> Cache_update cache key A F key = Some (F, A)"
proof -
  have "Cache_get (Cache_updates cache (earlier @ [(key, A, F)] @ later)) key G
        = Cache_get (Cache_update (Cache_updates cache earlier) key A F) key G" for G
    using Cache_get_other_writes[OF assms] by (simp add: Cache_updates_append)
  then show ?thesis
    by (simp add: Cache_get_def Cache_update_def)
qed

theorem cache_get_after_update_witness:
  "Cache_get
     (Cache_updates Map.empty
        ([(''440'', [], Fingerprint None (Some 1))]
         @ [(''440'', [Achievement 1600000000 None ''First Blood''],
             Fingerprint (Some 1700000000) (Some 90))]
         @ [(''570'', [], Fingerprint None (Some 5))]))
     ''440'' (Fingerprint (Some 1700000000) (Some 90))
   = Some [Achievement 1600000000 None ''First Blood'']
   \<and> Cache_get
     (Cache_updates Map.empty
        ([(''440'', [], Fingerprint None (Some 1))]
         @ [(''440'', [Achievement 1600000000 None ''First Blood''],
             Fingerprint (Some 1700000000) (Some 90))]
         @ [(''570'', [], Fingerprint None (Some 5))]))
     ''440'' (Fingerprint (Some 1700000000) (Some 91))
   = None"
  using cache_get_after_update
    [of "[(''570'', [], Fingerprint None (Some 5))]" "''440''" Map.empty
        "[(''440'', [], Fingerprint None (Some 1))]"
        "[Achievement 1600000000 None ''First Blood'']"
        "Fingerprint (Some 1700000000) (Some 90)"]
  by simp

subsection \<open>A login reply that nobody waits for\<close>

lemma translate_error_kind:
  "result \<noteq> EResult.OK \<Longrightarrow> \<exists>k. translate_error result = Inr (GalaxyError k result)"
  by (simp add: translate_error_def)

text \<open>
  In the client of \<open>steam_network\<close>, a reply with a result other than \<open>OK\<close> that finds
  no login future is raised as the translated error, and the client is left as it was.
\<close>

theorem unsolicited_login_reply_translated:
  "login_future self = None \<Longrightarrow> result \<noteq> EResult.OK \<Longrightarrow>
   \<exists>k. translate_error result = Inr (GalaxyError k result)
     \<and> login_handler self result message = (Some (Raised (GalaxyError k result)), self)"
proof -
  assume a: "login_future self = None" and b: "result \<noteq> EResult.OK"
  from b obtain k where k: "translate_error result = Inr (GalaxyError k result)"
    using translate_error_kind by blast
  have "login_handler self result message = (Some (raise_translate_error result), self)"
    using a b by (simp add: login_handler_def)
  with k show ?thesis
    by (simp add: raise_translate_error_def)
qed

theorem unsolicited_login_reply_translated_witness:
  "login_handler \<lparr>user_info_cache_steam_id = Some 42, login_future = None\<rparr>
     EResult.Banned
     \<lparr>client_id = 0, steamid = 0, request_id = '''', interval = (0::nat),
      allowed_confirmations = [], extended_error_message = ''banned''\<rparr>
   = (Some (Raised (GalaxyError Banned EResult.Banned)),
      \<lparr>user_info_cache_steam_id = Some 42, login_future = None\<rparr>)"
  using unsolicited_login_reply_translated
    [of "\<lparr>user_info_cache_steam_id = Some 42, login_future = None\<rparr>" EResult.Banned
        "\<lparr>client_id = 0, steamid = 0, request_id = '''', interval = (0::nat),
          allowed_confirmations = [], extended_error_message = ''banned''\<rparr>"]
  by (simp add: translate_error_def)

text \<open>
  Claim C8. A login reply that arrives when no login future is pending is raised to the
  caller as the translated protocol error. The three runs below are an unsolicited
  \<open>TryAnotherCM\<close> reply in the older client (\<open>_log_on_handler\<close>), the same reply in the
  client of \<open>steam_network\<close> (\<open>_login_handler\<close>), and an unsolicited \<open>OK\<close> reply there:
  the older client fails its assertion, the newer one raises \<open>BackendNotAvailable\<close> as
  the claim says, and for \<open>OK\<close> the assertion of \<open>translate_error\<close> escapes.
\<close>

theorem unsolicited_login_reply:
  "log_on_handler \<lparr>legacy_login_future = None\<rparr> EResult.TryAnotherCM
     = (Some AssertionError, \<lparr>legacy_login_future = None\<rparr>)
   \<and> login_handler \<lparr>user_info_cache_steam_id = None, login_future = None\<rparr>
       EResult.TryAnotherCM
       \<lparr>client_id = 0, steamid = 0, request_id = '''', interval = (0::nat),
        allowed_confirmations = [], extended_error_message = ''''\<rparr>
     = (Some (Raised (GalaxyError BackendNotAvailable EResult.TryAnotherCM)),
        \<lparr>user_info_cache_steam_id = None, login_future = None\<rparr>)
   \<and> fst (login_handler \<lparr>user_info_cache_steam_id = None, login_future = None\<rparr>
       EResult.OK
       \<lparr>client_id = 0, steamid = 0, request_id = '''', interval = (0::nat),
        allowed_confirmations = [], extended_error_message = ''''\<rparr>)
     = Some AssertionError"
  by (simp add: log_on_handler_def login_handler_def raise_translate_error_def
      translate_error_def)

subsection \<open>The friends cache after a relationship update\<close>

lemma declared_Nil: "declared r [] = {}"
  by (simp add: declared_def)

lemma declared_Cons:
  "declared r ((user_id, r') # rest) =
     (if r' = r then insert user_id (declared r rest) else declared r rest)"
  by (simp add: declared_def)

lemma declared_subset: "declared r friends \<subseteq> fst ` set friends"
  by (auto simp: declared_def)

lemma relationship_loop_incremental_ok:
  "fst (relationship_loop True friends cache initial_friends new_friends) = None"
proof (induction friends arbitrary: cache new_friends)
  case Nil
  show ?case by simp
next
  case (Cons item rest)
  obtain user_id relationship where item: "item = (user_id, relationship)" by (cases item)
  show ?case unfolding item by (simp add: Cons.IH)
qed

lemma relationship_loop_incremental_cache:
  "distinct (map fst friends) \<Longrightarrow>
   fst (snd (relationship_loop True friends cache initial_friends new_friends)) =
     (cache \<union> declared Friend friends) - declared None_relationship friends"
proof (induction friends arbitrary: cache new_friends)
  case Nil
  show ?case by (simp add: declared_Nil)
next
  case (Cons item rest)
  obtain user_id relationship where item: "item = (user_id, relationship)" by (cases item)
  from Cons.prems item have fresh: "user_id \<notin> fst ` set rest" and d: "distinct (map fst rest)"
    by auto
  have nf: "user_id \<notin> declared r rest" for r
    using fresh declared_subset[of r rest] by blast
  note IH = Cons.IH[OF d]
  show ?case
  proof (cases relationship)
    case None_relationship
    have "(FriendsCache_remove user_id cache \<union> declared Friend rest)
            - declared None_relationship rest
          = (cache \<union> declared Friend rest) - insert user_id (declared None_relationship rest)"
      using nf[of Friend] by (auto simp: FriendsCache_remove_def)
    then show ?thesis
      unfolding item None_relationship by (simp add: IH declared_Cons)
  next
    case Friend
    have "(FriendsCache_add user_id cache \<union> declared Friend rest)
            - declared None_relationship rest
          = (cache \<union> insert user_id (declared Friend rest)) - declared None_relationship rest"
      by (auto simp: FriendsCache_add_def)
    then show ?thesis
      unfolding item Friend by (simp add: IH declared_Cons)
  next
    case (EFriendRelationship_other n)
    show ?thesis
      unfolding item EFriendRelationship_other by (simp add: IH declared_Cons)
  qed
qed


lemma relationship_loop_full:
  "declared None_relationship friends = {} \<Longrightarrow>
   relationship_loop False friends cache initial_friends new_friends =
     (None, cache,
      initial_friends @ map fst (filter (\<lambda>item. snd item = Friend) friends), new_friends)"
proof (induction friends arbitrary: initial_friends)
  case Nil
  show ?case by simp
next
  case (Cons item rest)
  obtain user_id relationship where item: "item = (user_id, relationship)" by (cases item)
  from Cons.prems have rel: "relationship \<noteq> None_relationship"
    and rest: "declared None_relationship rest = {}"
    unfolding item by (simp_all add: declared_Cons split: if_splits)
  show ?case
    unfolding item using rel by (simp add: Cons.IH[OF rest])
qed

lemma relationship_loop_full_asserts:
  "declared None_relationship friends \<noteq> {} \<Longrightarrow>
   fst (relationship_loop False friends cache initial_friends new_friends)
     = Some AssertionError
   \<and> fst (snd (relationship_loop False friends cache initial_friends new_friends)) = cache"
proof (induction friends arbitrary: initial_friends)
  case Nil
  then show ?case by (simp add: declared_Nil)
next
  case (Cons item rest)
  obtain user_id relationship where item: "item = (user_id, relationship)" by (cases item)
  show ?case
  proof (cases "relationship = None_relationship")
    case True
    then show ?thesis unfolding item by simp
  next
    case False
    with Cons.prems have "declared None_relationship rest \<noteq> {}"
      unfolding item by (simp add: declared_Cons)
    from Cons.IH[OF this] False show ?thesis
      unfolding item by simp
  qed
qed

text \<open>
  Claim C5 reads: after any relationship update the friends cache contains only users
  whose declared relationship is Friend, and a full snapshot replaces the prior contents.
  Two runs where the handler does otherwise. User 7
  is cached as a friend; an incremental update then declares for 7 a relationship that is
  neither \<open>Friend\<close> nor \<open>None_\<close>: the handler has no branch for it and 7 stays. And a full
  snapshot that carries a \<open>None_\<close> entry fails \<open>assert incremental\<close> before the reset,
  so the prior contents stay as well.
\<close>

theorem relationship_update_counterexample:
  "relationship_handler True [(7, EFriendRelationship_other 1)] {7} = (None, {7}, [])
   \<and> relationship_handler False [(8, Friend), (7, None_relationship)] {7}
       = (Some AssertionError, {7}, [])"
  by (simp add: relationship_handler_def)

text \<open>
  Claim C5, as the code has it. \<open>friends\<close> is a dict, so each user occurs once. After an
  incremental update the cache holds its previous users and those declared \<open>Friend\<close>,
  without those declared \<open>None_\<close>: a user going from Friend to None is absent
  afterwards. A full snapshot with no \<open>None_\<close> entry replaces the prior contents with
  exactly the users it declares \<open>Friend\<close>; one with a \<open>None_\<close> entry fails the
  assertion and leaves the cache as it was.
\<close>

theorem relationship_handler_cache:
  assumes "distinct (map fst friends)"
  shows "(fst (relationship_handler True friends cache) = None
          \<and> fst (snd (relationship_handler True friends cache))
              = (cache \<union> declared Friend friends) - declared None_relationship friends)
       \<and> (declared None_relationship friends = {} \<longrightarrow>
            fst (relationship_handler False friends cache) = None
          \<and> fst (snd (relationship_handler False friends cache)) = declared Friend friends)
       \<and> (declared None_relationship friends \<noteq> {} \<longrightarrow>
            relationship_handler False friends cache = (Some AssertionError, cache, []))"
proof -
  obtain e c i n where loop: "relationship_loop True friends cache [] [] = (e, c, i, n)"
    by (cases "relationship_loop True friends cache [] []") auto
  from relationship_loop_incremental_ok[of friends cache "[]" "[]"] loop
  have e: "e = None" by simp
  from relationship_loop_incremental_cache[OF assms, of cache "[]" "[]"] loop
  have c: "c = (cache \<union> declared Friend friends) - declared None_relationship friends"
    by simp
  have a: "fst (relationship_handler True friends cache) = None
          \<and> fst (snd (relationship_handler True friends cache))
              = (cache \<union> declared Friend friends) - declared None_relationship friends"
    by (simp add: relationship_handler_def loop e c)
  have b: "fst (relationship_handler False friends cache) = None
          \<and> fst (snd (relationship_handler False friends cache)) = declared Friend friends"
    if "declared None_relationship friends = {}"
    by (simp add: relationship_handler_def relationship_loop_full[OF that]
        FriendsCache_reset_def declared_def)
  have c': "relationship_handler False friends cache = (Some AssertionError, cache, [])"
    if "declared None_relationship friends \<noteq> {}"
  proof -
    obtain e' c' i' n' where l: "relationship_loop False friends cache [] [] = (e', c', i', n')"
      by (cases "relationship_loop False friends cache [] []") auto
    from relationship_loop_full_asserts[OF that, of cache "[]" "[]"] l
    have "e' = Some AssertionError" "c' = cache" by simp_all
    then show ?thesis by (simp add: relationship_handler_def l)
  qed
  from a b c' show ?thesis by blast
qed

theorem relationship_handler_cache_witness:
  "distinct (map fst [(7::int, None_relationship), (8, Friend), (9, EFriendRelationship_other 1)])
   \<and> relationship_handler True
        [(7, None_relationship), (8, Friend), (9, EFriendRelationship_other 1)] {7, 9}
       = (None, {8, 9}, [Get_friends_statuses, Get_user_infos [8] 1106])
   \<and> relationship_handler False [(8, Friend), (9, EFriendRelationship_other 1)] {7, 9}
       = (None, {8},
          [Set_persona_state_Invisible, Get_friends_statuses, Get_user_infos [8] 1106])"
proof -
  have 1: "relationship_handler True
        [(7, None_relationship), (8, Friend), (9, EFriendRelationship_other 1)] {7, 9}
       = (None, {8, 9}, [Get_friends_statuses, Get_user_infos [8] 1106])"
    by (simp add: relationship_handler_def FriendsCache_add_def FriendsCache_remove_def
        insert_commute)
  have 2: "relationship_handler False [(8, Friend), (9, EFriendRelationship_other 1)] {7, 9}
       = (None, {8},
          [Set_persona_state_Invisible, Get_friends_statuses, Get_user_infos [8] 1106])"
    by (simp add: relationship_handler_def FriendsCache_reset_def)
  show ?thesis
    using relationship_handler_cache
      [of "[(7, None_relationship), (8, Friend), (9, EFriendRelationship_other 1)]" "{7, 9}"]
    by (simp (no_asm) add: 1 2)
qed

subsection \<open>Public profile checks\<close>

lemma verify_is_public_never_False:
  "fst (verify_is_public http_get fromstring url) \<noteq> Inr False"
  by (simp add: verify_is_public_def Let_def split: sum.splits option.splits)

lemma verify_is_public_outcomes:
  "http_get url = Inr body \<Longrightarrow> fromstring body = Inr root \<Longrightarrow>
   verify_is_public http_get fromstring url =
     (if error_text root \<noteq> None \<and> error_text root \<noteq> Some [] then
        (if error_text root = Some ''The specified profile could not be found.''
         then (Inl ProfileDoesNotExist, [url])
         else if error_text root = Some ''This profile is private.''
         then (Inl ProfileIsNotPublic, [url])
         else (Inl ParseError, [url]))
      else if find_games_game root = None
        then (Inl NotPublicGameDetailsOrUserHasNoGames, [url])
      else if children (the (find_games_game root)) = []
        then (Inl NotPublicGameDetailsOrUserHasNoGames, [url])
      else (Inr True, [url]))"
  by (simp add: verify_is_public_def Let_def split: option.splits)

text \<open>
  Claim C10. Neither \<open>check_is_public_by_custom_url\<close> nor \<open>check_is_public_by_steam_id\<close>
  ever returns \<open>False\<close>. \<open>check_is_public_by_steam_id\<close> raises \<open>ValueError\<close> for a
  falsy steam id without requesting anything; otherwise both are \<open>_verify_is_public\<close> on
  their URL. Once the response is fetched and parsed, that function raises
  \<open>ProfileDoesNotExist\<close> or \<open>ProfileIsNotPublic\<close> for the two known error texts,
  \<open>ParseError\<close> for any other non-empty error text,
  \<open>NotPublicGameDetailsOrUserHasNoGames\<close> when there is no error text and no game
  element, and in every case ends in \<open>True\<close> or in one of these four exceptions.
\<close>

theorem public_profile_checks:
  "fst (check_is_public_by_custom_url http_get fromstring username) \<noteq> Inr False
   \<and> fst (check_is_public_by_steam_id http_get fromstring user_steam_id) \<noteq> Inr False
   \<and> (\<not> truthy user_steam_id \<longrightarrow>
        check_is_public_by_steam_id http_get fromstring user_steam_id = (Inl ValueError, []))
   \<and> check_is_public_by_custom_url http_get fromstring username
       = verify_is_public http_get fromstring
           (''https://steamcommunity.com/id/'' @ username @ ''/games/?xml=1'')
   \<and> (truthy user_steam_id \<longrightarrow>
        check_is_public_by_steam_id http_get fromstring user_steam_id
          = verify_is_public http_get fromstring
              (''https://steamcommunity.com/profiles/'' @ py_str user_steam_id
               @ ''/games/?xml=1''))
   \<and> (http_get url = Inr body \<and> fromstring body = Inr root \<longrightarrow>
        (error_text root = Some ''The specified profile could not be found.'' \<longrightarrow>
           fst (verify_is_public http_get fromstring url) = Inl ProfileDoesNotExist)
      \<and> (error_text root = Some ''This profile is private.'' \<longrightarrow>
           fst (verify_is_public http_get fromstring url) = Inl ProfileIsNotPublic)
      \<and> (\<forall>t. error_text root = Some t \<and> t \<noteq> []
               \<and> t \<noteq> ''The specified profile could not be found.''
               \<and> t \<noteq> ''This profile is private.'' \<longrightarrow>
           fst (verify_is_public http_get fromstring url) = Inl ParseError)
      \<and> ((error_text root = None \<or> error_text root = Some [])
           \<and> find_games_game root = None \<longrightarrow>
           fst (verify_is_public http_get fromstring url)
             = Inl NotPublicGameDetailsOrUserHasNoGames)
      \<and> (fst (verify_is_public http_get fromstring url) = Inr True
          \<or> fst (verify_is_public http_get fromstring url) \<in> Inl ` profile_errors))"
proof -
  have 1: "fst (check_is_public_by_custom_url http_get fromstring username) \<noteq> Inr False"
    by (simp add: check_is_public_by_custom_url_def verify_is_public_never_False)
  have 2: "fst (check_is_public_by_steam_id http_get fromstring user_steam_id) \<noteq> Inr False"
    by (simp add: check_is_public_by_steam_id_def verify_is_public_never_False)
  have 3: "\<not> truthy user_steam_id \<longrightarrow>
        check_is_public_by_steam_id http_get fromstring user_steam_id = (Inl ValueError, [])"
    by (simp add: check_is_public_by_steam_id_def)
  have 4: "check_is_public_by_custom_url http_get fromstring username
       = verify_is_public http_get fromstring
           (''https://steamcommunity.com/id/'' @ username @ ''/games/?xml=1'')"
    by (simp add: check_is_public_by_custom_url_def BASE_URL_def)
  have 5: "truthy user_steam_id \<longrightarrow>
        check_is_public_by_steam_id http_get fromstring user_steam_id
          = verify_is_public http_get fromstring
              (''https://steamcommunity.com/profiles/'' @ py_str user_steam_id
               @ ''/games/?xml=1'')"
    by (simp add: check_is_public_by_steam_id_def BASE_URL_def)
  have 6: "(error_text root = Some ''The specified profile could not be found.'' \<longrightarrow>
           fst (verify_is_public http_get fromstring url) = Inl ProfileDoesNotExist)
      \<and> (error_text root = Some ''This profile is private.'' \<longrightarrow>
           fst (verify_is_public http_get fromstring url) = Inl ProfileIsNotPublic)
      \<and> (\<forall>t. error_text root = Some t \<and> t \<noteq> []
               \<and> t \<noteq> ''The specified profile could not be found.''
               \<and> t \<noteq> ''This profile is private.'' \<longrightarrow>
           fst (verify_is_public http_get fromstring url) = Inl ParseError)
      \<and> ((error_text root = None \<or> error_text root = Some [])
           \<and> find_games_game root = None \<longrightarrow>
           fst (verify_is_public http_get fromstring url)
             = Inl NotPublicGameDetailsOrUserHasNoGames)
      \<and> (fst (verify_is_public http_get fromstring url) = Inr True
          \<or> fst (verify_is_public http_get fromstring url) \<in> Inl ` profile_errors)"
    if "http_get url = Inr body" "fromstring body = Inr root"
    unfolding verify_is_public_outcomes[of http_get url body fromstring root, OF that]
    by (auto simp: profile_errors_def)
  from 1 2 3 4 5 6 show ?thesis by blast
qed

text \<open>\<open>str\<close> of the small numbers that the examples use.\<close>

lemma str_int_digits:
  "str_int 1 = ''1''" "str_int 2 = ''2''" "str_int 3 = ''3''" "str_int 4 = ''4''"
  "str_int 7 = ''7''"
  by (simp_all add: str_int_def char_of_def bit_iff_odd)

theorem public_profile_checks_witness:
  "check_is_public_by_steam_id (\<lambda>url. Inr ''<gamesList/>'')
      (\<lambda>body. Inr (Element ''gamesList'' None [])) (PyInt 0)
     = (Inl ValueError, [])
   \<and> check_is_public_by_steam_id (\<lambda>url. Inr ''...'')
      (\<lambda>body. Inr (Element ''gamesList'' None
         [Element ''error'' (Some ''This profile is private.'') []]))
      (PyInt 7)
     = (Inl ProfileIsNotPublic, [''https://steamcommunity.com/profiles/7/games/?xml=1''])
   \<and> check_is_public_by_custom_url (\<lambda>url. Inr ''...'')
      (\<lambda>body. Inr (Element ''gamesList'' None
         [Element ''games'' None [Element ''game'' None [Element ''appID'' (Some ''440'') []]]]))
      ''gabe''
     = (Inr True, [''https://steamcommunity.com/id/gabe/games/?xml=1''])"
proof -
  have 1: "check_is_public_by_steam_id (\<lambda>url. Inr ''<gamesList/>'')
      (\<lambda>body. Inr (Element ''gamesList'' None [])) (PyInt 0)
     = (Inl ValueError, [])"
    by (simp add: check_is_public_by_steam_id_def)
  have 2: "check_is_public_by_steam_id (\<lambda>url. Inr ''...'')
      (\<lambda>body. Inr (Element ''gamesList'' None
         [Element ''error'' (Some ''This profile is private.'') []]))
      (PyInt 7)
     = (Inl ProfileIsNotPublic, [''https://steamcommunity.com/profiles/7/games/?xml=1''])"
    by (simp add: check_is_public_by_steam_id_def verify_is_public_def error_text_def
        find_child_def BASE_URL_def str_int_digits)
  have 3: "check_is_public_by_custom_url (\<lambda>url. Inr ''...'')
      (\<lambda>body. Inr (Element ''gamesList'' None
         [Element ''games'' None [Element ''game'' None [Element ''appID'' (Some ''440'') []]]]))
      ''gabe''
     = (Inr True, [''https://steamcommunity.com/id/gabe/games/?xml=1''])"
    by (simp add: check_is_public_by_custom_url_def verify_is_public_def error_text_def
        find_child_def find_games_game_def BASE_URL_def)
  show ?thesis
    using public_profile_checks
      [of "\<lambda>url. Inr ''...''"
          "\<lambda>body. Inr (Element ''gamesList'' None
             [Element ''error'' (Some ''This profile is private.'') []])"
          "''gabe''" "PyInt 7" "''https://steamcommunity.com/profiles/7/games/?xml=1''"
          "''...''"
          "Element ''gamesList'' None
             [Element ''error'' (Some ''This profile is private.'') []]"]
    by (simp (no_asm) add: 1 2 3)
qed

subsection \<open>License import\<close>

lemma get_package_ids_entered:
  "get_package_ids (cache\<lparr>storing_map := storing_map cache @ [(p, [])]\<rparr>)
     = insert p (get_package_ids cache)"
  by (simp add: get_package_ids_def)

lemma get_resolved_packages_entered:
  "get_resolved_packages (cache\<lparr>storing_map := storing_map cache @ [(p, [])]\<rparr>)
     = get_resolved_packages cache"
  by (simp add: get_resolved_packages_def)

lemma reset_storing_map_empty:
  "storing_map (reset_storing_map cache) = []"
  "get_package_ids (reset_storing_map cache) = {}"
  "get_resolved_packages (reset_storing_map cache) = {}"
  by (simp_all add: reset_storing_map_def get_package_ids_def get_resolved_packages_def)

lemma batch_package_ids_Cons:
  "batch_package_ids (steam_license # rest)
     = insert (str_int (package_id steam_license)) (batch_package_ids rest)"
  by (simp add: batch_package_ids_def)

lemma start_packages_import_package_ids:
  "get_package_ids (start_packages_import steam_licenses cache)
     = get_package_ids cache \<union> batch_package_ids steam_licenses"
proof (induction steam_licenses arbitrary: cache)
  case Nil
  show ?case by (simp add: batch_package_ids_def)
next
  case (Cons steam_license rest)
  show ?case
    by (auto simp: Cons.IH batch_package_ids_Cons get_package_ids_entered)
qed

lemma start_packages_import_resolved:
  "get_resolved_packages (start_packages_import steam_licenses cache)
     = get_resolved_packages cache"
proof (induction steam_licenses arbitrary: cache)
  case Nil
  show ?case by simp
next
  case (Cons steam_license rest)
  show ?case
    by (simp add: Cons.IH get_resolved_packages_entered)
qed

lemma start_packages_import_no_apps:
  "\<forall>entry \<in> set (storing_map cache). snd entry = [] \<Longrightarrow>
   \<forall>entry \<in> set (storing_map (start_packages_import steam_licenses cache)). snd entry = []"
proof (induction steam_licenses arbitrary: cache)
  case Nil
  then show ?case by simp
next
  case (Cons steam_license rest)
  show ?case
  proof (cases "str_int (package_id steam_license) \<in> get_package_ids cache")
    case True
    then show ?thesis using Cons.IH[OF Cons.prems] by simp
  next
    case False
    let ?c = "cache\<lparr>storing_map :=
               storing_map cache @ [(str_int (package_id steam_license), [])]\<rparr>"
    have "\<forall>entry \<in> set (storing_map ?c). snd entry = []"
      using Cons.prems by simp
    from Cons.IH[OF this] False show ?thesis by simp
  qed
qed

lemma batch_package_ids_filter:
  "batch_package_ids (filter P steam_licenses) \<subseteq> batch_package_ids steam_licenses"
  by (auto simp: batch_package_ids_def)

lemma license_import_handler_branches:
  "license_import_handler games_cache steam_licenses =
     (if card (batch_package_ids steam_licenses) < 12000
         \<and> batch_package_ids steam_licenses \<noteq> get_package_ids games_cache
      then (start_packages_import steam_licenses (reset_storing_map games_cache),
            [Reset_storing_map, Start_packages_import steam_licenses],
            [Get_packages_info steam_licenses])
      else (let not_resolved_licenses =
                  filter (\<lambda>steam_license. str_int (package_id steam_license)
                            \<notin> get_resolved_packages games_cache) steam_licenses
            in (start_packages_import not_resolved_licenses games_cache,
                [Start_packages_import not_resolved_licenses],
                [Get_packages_info not_resolved_licenses])))"
  by (simp add: license_import_handler_def batch_package_ids_def Let_def)

text \<open>
  Claim C3. When the set of distinct package identifiers of a batch differs from the
  previously seen set and has fewer than 12000 elements, \<open>_license_import_handler\<close>
  resets the storing map, starts the import of every license of the batch and requests
  package info for the entire batch. Afterwards no package has an associated app and the
  packages marked as importing are exactly those of the batch.
\<close>

theorem license_import_full_resync:
  assumes "batch_package_ids steam_licenses \<noteq> get_package_ids games_cache"
    and "card (batch_package_ids steam_licenses) < 12000"
  shows "fst (snd (license_import_handler games_cache steam_licenses))
           = [Reset_storing_map, Start_packages_import steam_licenses]
       \<and> snd (snd (license_import_handler games_cache steam_licenses))
           = [Get_packages_info steam_licenses]
       \<and> get_resolved_packages (fst (license_import_handler games_cache steam_licenses)) = {}
       \<and> list_all (\<lambda>entry. snd entry = [])
           (storing_map (fst (license_import_handler games_cache steam_licenses)))
       \<and> get_package_ids (fst (license_import_handler games_cache steam_licenses))
           = batch_package_ids steam_licenses"
proof -
  have h: "license_import_handler games_cache steam_licenses =
        (start_packages_import steam_licenses (reset_storing_map games_cache),
         [Reset_storing_map, Start_packages_import steam_licenses],
         [Get_packages_info steam_licenses])"
    using assms by (simp add: license_import_handler_branches)
  note e = reset_storing_map_empty(1) and p = reset_storing_map_empty(2)
    and r = reset_storing_map_empty(3)
  have n: "list_all (\<lambda>entry. snd entry = [])
     (storing_map (start_packages_import steam_licenses (reset_storing_map games_cache)))"
    using start_packages_import_no_apps[of "reset_storing_map games_cache" steam_licenses]
    by (simp add: e list_all_iff)
  show ?thesis
    by (simp add: h start_packages_import_resolved r start_packages_import_package_ids p n)
qed

text \<open>
  After one delivery the stored package-identifier set equals the batch's, unless the
  batch has 12000 identifiers or more: the condition of the reset branch is false.
\<close>

lemma license_import_handler_stable:
  "\<not> (card (batch_package_ids steam_licenses) < 12000
      \<and> batch_package_ids steam_licenses
          \<noteq> get_package_ids (fst (license_import_handler games_cache steam_licenses)))"
proof (cases "card (batch_package_ids steam_licenses) < 12000
              \<and> batch_package_ids steam_licenses \<noteq> get_package_ids games_cache")
  case True
  have "fst (license_import_handler games_cache steam_licenses)
             = start_packages_import steam_licenses (reset_storing_map games_cache)"
    unfolding license_import_handler_branches if_P[OF True] by simp
  then show ?thesis
    by (simp add: start_packages_import_package_ids reset_storing_map_empty)
next
  case False
  let ?nr = "filter (\<lambda>steam_license. str_int (package_id steam_license)
                        \<notin> get_resolved_packages games_cache) steam_licenses"
  have f: "fst (license_import_handler games_cache steam_licenses)
             = start_packages_import ?nr games_cache"
    unfolding license_import_handler_branches if_not_P[OF False] by (simp add: Let_def)
  show ?thesis
  proof (cases "card (batch_package_ids steam_licenses) < 12000")
    case True
    with False have eq: "batch_package_ids steam_licenses = get_package_ids games_cache"
      by simp
    have "get_package_ids (start_packages_import ?nr games_cache)
          = batch_package_ids steam_licenses"
      using batch_package_ids_filter[of _ steam_licenses]
      by (auto simp: start_packages_import_package_ids eq[symmetric])
    then show ?thesis by (simp add: f)
  next
    case False
    then show ?thesis by simp
  qed
qed

text \<open>
  Claim C4. When the same batch is delivered twice in a row, the second delivery does
  not change the set of resolved packages and does not reset: it starts the import of,
  and requests package info for, exactly the licenses of the batch whose package has no
  associated app.
\<close>

theorem license_import_twice:
  "let cache1 = fst (license_import_handler games_cache steam_licenses);
       second = license_import_handler cache1 steam_licenses;
       not_resolved =
         filter (\<lambda>steam_license. str_int (package_id steam_license)
                    \<notin> get_resolved_packages cache1) steam_licenses
   in get_resolved_packages (fst second) = get_resolved_packages cache1
    \<and> Reset_storing_map \<notin> set (fst (snd second))
    \<and> fst (snd second) = [Start_packages_import not_resolved]
    \<and> snd (snd second) = [Get_packages_info not_resolved]"
proof -
  define cache1 where "cache1 = fst (license_import_handler games_cache steam_licenses)"
  define not_resolved where "not_resolved =
         filter (\<lambda>steam_license. str_int (package_id steam_license)
                    \<notin> get_resolved_packages cache1) steam_licenses"
  have stable: "\<not> (card (batch_package_ids steam_licenses) < 12000
      \<and> batch_package_ids steam_licenses \<noteq> get_package_ids cache1)"
    unfolding cache1_def by (rule license_import_handler_stable)
  have second: "license_import_handler cache1 steam_licenses =
       (start_packages_import not_resolved cache1,
        [Start_packages_import not_resolved], [Get_packages_info not_resolved])"
    unfolding not_resolved_def license_import_handler_branches if_not_P[OF stable]
    by (simp add: Let_def)
  have "get_resolved_packages (fst (license_import_handler cache1 steam_licenses))
        = get_resolved_packages cache1"
    by (simp add: second start_packages_import_resolved)
  then show ?thesis
    unfolding Let_def cache1_def[symmetric] not_resolved_def[symmetric]
    by (simp add: second)
qed

lemma example_batch_ids: "batch_package_ids
     [\<lparr>package_id = 1\<rparr>, \<lparr>package_id = 2\<rparr>, \<lparr>package_id = 3\<rparr>, \<lparr>package_id = 4\<rparr>]
    = {''1'', ''2'', ''3'', ''4''}"
  by (simp add: batch_package_ids_def str_int_digits)

lemma example_cached_ids: "get_package_ids \<lparr>storing_map = [(''1'', [''10'']), (''2'', [''20'']), (''3'', [])]\<rparr>
   = {''1'', ''2'', ''3''}"
  by (simp add: get_package_ids_def)

lemma example_ids_differ: "{''1'', ''2'', ''3'', ''4''} \<noteq> {''1'', ''2'', ''3''}"
proof
  assume "{''1'', ''2'', ''3'', ''4''} = {''1'', ''2'', ''3''}"
  moreover have "''4'' \<in> {''1'', ''2'', ''3'', ''4''}" by simp
  ultimately have "''4'' \<in> {''1'', ''2'', ''3''}" by (rule subst)
  then show False by simp
qed

lemma card_batch_package_ids: "card (batch_package_ids steam_licenses) \<le> length steam_licenses"
  unfolding batch_package_ids_def
  using card_length[of "map (\<lambda>steam_license. str_int (package_id steam_license)) steam_licenses"]
  by simp


lemma example_full_import: "start_packages_import
     [\<lparr>package_id = 1\<rparr>, \<lparr>package_id = 2\<rparr>, \<lparr>package_id = 3\<rparr>, \<lparr>package_id = 4\<rparr>]
     (reset_storing_map \<lparr>storing_map = [(''1'', [''10'']), (''2'', [''20'']), (''3'', [])]\<rparr>)
           = \<lparr>storing_map = [(''1'', []), (''2'', []), (''3'', []), (''4'', [])]\<rparr>"
  by (simp add: reset_storing_map_def get_package_ids_def str_int_digits)

lemma example_resolved: "get_resolved_packages \<lparr>storing_map = [(''1'', [''10'']), (''2'', [])]\<rparr> = {''1''}"
  by (simp add: get_resolved_packages_def)

lemma example_incremental_import: "start_packages_import [\<lparr>package_id = 2\<rparr>]
     \<lparr>storing_map = [(''1'', [''10'']), (''2'', [])]\<rparr>
   = \<lparr>storing_map = [(''1'', [''10'']), (''2'', [])]\<rparr>"
  by (simp add: get_package_ids_def str_int_digits)

lemma example_not_resolved: "filter (\<lambda>steam_license. str_int (package_id steam_license)
                      \<notin> get_resolved_packages \<lparr>storing_map = [(''1'', [''10'']), (''2'', [])]\<rparr>)
      [\<lparr>package_id = 1\<rparr>, \<lparr>package_id = 2\<rparr>] = [\<lparr>package_id = 2\<rparr>]"
  by (simp add: example_resolved str_int_digits)


text \<open>
  The previously seen set is \<open>{1, 2, 3}\<close>, two of the packages resolved; the batch is
  \<open>{1, 2, 3, 4}\<close>.
\<close>

theorem license_import_full_resync_witness:
  "batch_package_ids
     [\<lparr>package_id = 1\<rparr>, \<lparr>package_id = 2\<rparr>, \<lparr>package_id = 3\<rparr>, \<lparr>package_id = 4\<rparr>]
     \<noteq> get_package_ids
         \<lparr>storing_map = [(''1'', [''10'']), (''2'', [''20'']), (''3'', [])]\<rparr>
   \<and> card (batch_package_ids
        [\<lparr>package_id = 1\<rparr>, \<lparr>package_id = 2\<rparr>, \<lparr>package_id = 3\<rparr>, \<lparr>package_id = 4\<rparr>])
       < 12000
   \<and> license_import_handler
        \<lparr>storing_map = [(''1'', [''10'']), (''2'', [''20'']), (''3'', [])]\<rparr>
        [\<lparr>package_id = 1\<rparr>, \<lparr>package_id = 2\<rparr>, \<lparr>package_id = 3\<rparr>, \<lparr>package_id = 4\<rparr>]
     = (\<lparr>storing_map = [(''1'', []), (''2'', []), (''3'', []), (''4'', [])]\<rparr>,
        [Reset_storing_map,
         Start_packages_import
           [\<lparr>package_id = 1\<rparr>, \<lparr>package_id = 2\<rparr>, \<lparr>package_id = 3\<rparr>, \<lparr>package_id = 4\<rparr>]],
        [Get_packages_info
           [\<lparr>package_id = 1\<rparr>, \<lparr>package_id = 2\<rparr>, \<lparr>package_id = 3\<rparr>, \<lparr>package_id = 4\<rparr>]])"
proof -
  let ?ls = "[\<lparr>package_id = 1\<rparr>, \<lparr>package_id = 2\<rparr>, \<lparr>package_id = 3\<rparr>, \<lparr>package_id = 4\<rparr>]"
  let ?c = "\<lparr>storing_map = [(''1'', [''10'']), (''2'', [''20'']), (''3'', [])]\<rparr>"
  have ne: "batch_package_ids ?ls \<noteq> get_package_ids ?c"
    unfolding example_batch_ids example_cached_ids by (rule example_ids_differ)
  have c: "card (batch_package_ids ?ls) < 12000"
    using card_batch_package_ids[of ?ls] by simp
  have h: "license_import_handler ?c ?ls =
        (\<lparr>storing_map = [(''1'', []), (''2'', []), (''3'', []), (''4'', [])]\<rparr>,
         [Reset_storing_map, Start_packages_import ?ls], [Get_packages_info ?ls])"
    unfolding license_import_handler_branches if_P[OF conjI[OF c ne]] example_full_import by (rule refl)
  from license_import_full_resync[OF ne c] ne c h show ?thesis
    by (intro conjI)
qed

text \<open>
  Package 1 is resolved and package 2 is not; the batch \<open>{1, 2}\<close> is delivered twice.
\<close>

theorem license_import_twice_witness:
  "license_import_handler
     (fst (license_import_handler
        \<lparr>storing_map = [(''1'', [''10'']), (''2'', [])]\<rparr>
        [\<lparr>package_id = 1\<rparr>, \<lparr>package_id = 2\<rparr>]))
     [\<lparr>package_id = 1\<rparr>, \<lparr>package_id = 2\<rparr>]
   = (\<lparr>storing_map = [(''1'', [''10'']), (''2'', [])]\<rparr>,
      [Start_packages_import [\<lparr>package_id = 2\<rparr>]],
      [Get_packages_info [\<lparr>package_id = 2\<rparr>]])"
proof -
  let ?ls = "[\<lparr>package_id = 1\<rparr>, \<lparr>package_id = 2\<rparr>]"
  let ?c = "\<lparr>storing_map = [(''1'', [''10'']), (''2'', [])]\<rparr>"
  have b: "batch_package_ids ?ls = get_package_ids ?c"
    by (simp add: batch_package_ids_def get_package_ids_def str_int_digits)
  have n: "\<not> (card (batch_package_ids ?ls) < 12000
             \<and> batch_package_ids ?ls \<noteq> get_package_ids ?c)"
    using b by simp
  have h: "license_import_handler ?c ?ls =
        (?c, [Start_packages_import [\<lparr>package_id = 2\<rparr>]],
         [Get_packages_info [\<lparr>package_id = 2\<rparr>]])"
    unfolding license_import_handler_branches if_not_P[OF n] Let_def example_not_resolved example_incremental_import by (rule refl)
  have f: "fst (license_import_handler ?c ?ls) = ?c"
    unfolding h by simp
  from license_import_twice[of ?c ?ls] show ?thesis
    unfolding f by (rule_tac h)
qed

end
